theory Spec2Isabelle
  imports
    Complex_Main
    "HOL-Library.Char_ord"
    "HOL-Library.List_Lexorder"
    "HOL-Library.Product_Lexorder"
    "HOL-Library.Multiset"
begin

section \<open>Values, errors and the persistent state\<close>

text \<open>
  The embedding follows \<^verbatim>\<open>src/dsp/utils/cache.py\<close>. Python objects that reach the cache
  layer are values of \<open>pyval\<close>; \<open>PyInfinity\<close> is \<^verbatim>\<open>float("inf")\<close>. Negative infinity and
  NaN are not modelled. Floats are only compared, never computed with, so a finite float
  is a real number here.
\<close>

datatype pyval = PyNone | PyInt int | PyFloat real | PyInfinity | PyStr string

text \<open>
  Every way a call of this module can raise is a constructor.
  \<^item> \<open>ContextManagerError\<close>: \<^verbatim>\<open>with self.conn:\<close> while \<^verbatim>\<open>self.conn\<close> is \<^verbatim>\<open>None\<close>
    (\<^verbatim>\<open>None\<close> has no \<^verbatim>\<open>__enter__\<close>; AttributeError or TypeError by Python version).
  \<^item> \<open>PickleDumpTypeError\<close>: \<^verbatim>\<open>pickle.dump(result)\<close>, called without its required
    \<^verbatim>\<open>file\<close> argument (line 150).
  \<^item> \<open>PickleLoadTypeError\<close>: \<^verbatim>\<open>pickle.load(row[3])\<close>, called on a column value
    (bytes or \<^verbatim>\<open>None\<close>) instead of a file object (lines 249, 276).
  \<^item> \<open>HashTypeError\<close>: \<^verbatim>\<open>_hash(func, *args, **kwargs)\<close> with a keyword named
    \<^verbatim>\<open>func\<close>, which the call refuses as a second value for its first parameter.
  \<^item> \<open>FromTimestampError\<close>: \<^verbatim>\<open>datetime.fromtimestamp\<close> on a value that is not a number
    or on a time it cannot convert (line 302).
  \<^item> \<open>OverflowError\<close>: sqlite3 binding a Python integer outside the signed 64-bit
    range to a statement.
  \<^item> \<open>OperationalError\<close>, \<open>IntegrityError\<close>, \<open>ProgrammingError\<close>: raised by sqlite3.
  \<^item> \<open>PollTimeout\<close>: \<^verbatim>\<open>Exception("Failed to retrieve result from cache after polling.")\<close>
    (line 356).
  \<^item> \<open>StoredFailure x\<close>: \<^verbatim>\<open>Exception(result)\<close> (line 374).
  \<^item> \<open>CacheMissing\<close>: \<^verbatim>\<open>Exception("Cache does not exist for the given experiment
    timerange ...")\<close> (line 377).
  \<^item> \<open>OperationFailed msg\<close>: the exception of the wrapped function, re-raised by
    \<^verbatim>\<open>raise exc\<close> (line 406).
\<close>

datatype error =
    ContextManagerError
  | PickleDumpTypeError
  | PickleLoadTypeError
  | HashTypeError
  | FromTimestampError
  | OverflowError
  | OperationalError string
  | IntegrityError
  | ProgrammingError
  | PollTimeout
  | StoredFailure pyval
  | CacheMissing
  | OperationFailed string

text \<open>
  The column \<^verbatim>\<open>status\<close> holds 0, 1 or 2 (stored as text, compared and ordered as such;
  on single digits that is the numeric order).
\<close>

datatype status = FAILED | PENDING | COMPLETED

fun status_code :: "status \<Rightarrow> nat" where
  "status_code FAILED = 0"
| "status_code PENDING = 1"
| "status_code COMPLETED = 2"

text \<open>
  The upper end of a time range: a finite time or \<^verbatim>\<open>float("inf")\<close>, which the queries
  test for with \<^verbatim>\<open>end_time != float("inf")\<close>.
\<close>

datatype endtime = Until real | Future

text \<open>
  One row of the table \<^verbatim>\<open>cache\<close> (lines 97-106). \<open>row_idx\<close> abstracts the uuid4 string
  to a number; \<open>insert_timestamp\<close> is \<^verbatim>\<open>CURRENT_TIMESTAMP\<close>, in whole seconds;
  \<open>branch_idx\<close> is whatever value the column holds, since nothing checks that the
  branch is an integer.
\<close>

record row =
  row_idx :: nat
  branch_idx :: pyval
  operation_hash :: string
  insert_timestamp :: nat
  timestamp :: real
  status :: status
  payload :: "string option"
  result :: "pyval option"

datatype statement = CREATE_TABLE | INSERT | UPDATE | SELECT_COUNT | SELECT_ROW

text \<open>
  Everything outside one \<^verbatim>\<open>SQLiteCache\<close> object:
  \<^item> \<open>cache_table\<close>: the table in the database file, \<open>None\<close> before it is created;
  \<^item> \<open>writable\<close>: whether the database accepts writes;
  \<^item> \<open>next_uuid\<close>: the next value of \<^verbatim>\<open>uuid.uuid4()\<close>;
  \<^item> \<open>current_timestamp\<close>: the database clock;
  \<^item> \<open>default_timer\<close>: the reading of \<^verbatim>\<open>timeit.default_timer\<close>, in seconds;
  \<^item> \<open>invocations\<close>: the calls of the wrapped function so far, with their arguments;
  \<^item> \<open>journal\<close>: the statements handed to \<^verbatim>\<open>cursor.execute\<close> so far, each with
    whether that happened inside \<^verbatim>\<open>with self.lock:\<close>.
\<close>

record world =
  cache_table :: "row list option"
  writable :: bool
  next_uuid :: nat
  current_timestamp :: nat
  default_timer :: real
  invocations :: "(pyval list \<times> (string \<times> pyval) list) list"
  journal :: "(statement \<times> bool) list"

text \<open>
  The wrapped callable: its \<^verbatim>\<open>__name__\<close> and what a call does, \<open>Inl msg\<close> for an
  exception with message \<open>msg\<close>.
\<close>

record operation =
  op_name :: string
  run :: "pyval list \<Rightarrow> (string \<times> pyval) list \<Rightarrow> string + pyval"

text \<open>
  The library functions the module calls and this theory does not define:
  \<^item> \<open>sha256_hexdigest\<close>: \<^verbatim>\<open>hashlib.sha256(s.encode()).hexdigest()\<close>;
  \<^item> \<open>py_str\<close>: Python's \<^verbatim>\<open>str\<close> on an argument value;
  \<^item> \<open>fromtimestamp_ok\<close>: whether \<^verbatim>\<open>datetime.fromtimestamp\<close> converts the time, which
    depends on the platform and its time zone;
  \<^item> \<open>sqlite_numeric\<close>: the number SQLite reads a text as when it applies numeric
    affinity, \<open>None\<close> for a text that is not a number.
\<close>

record library =
  sha256_hexdigest :: "string \<Rightarrow> string"
  py_str :: "pyval \<Rightarrow> string"
  fromtimestamp_ok :: "real \<Rightarrow> bool"
  sqlite_numeric :: "string \<Rightarrow> pyval option"

section \<open>filter_keys and _hash\<close>

text \<open>
  A keyword dictionary is an association list in insertion order; Python guarantees
  that its keys are distinct.
\<close>

definition filter_keys :: "(string \<times> 'v) list \<Rightarrow> string list \<Rightarrow> (string \<times> 'v) list" where
  "filter_keys input_dict keys_to_ignore =
     filter (\<lambda>(key, val). key \<notin> set keys_to_ignore) input_dict"

text \<open>\<^verbatim>\<open>sep.join(parts)\<close>\<close>

fun join :: "string \<Rightarrow> string list \<Rightarrow> string" where
  "join sep [] = []"
| "join sep [x] = x"
| "join sep (x # y # ys) = x @ sep @ join sep (y # ys)"

text \<open>
  \<^verbatim>\<open>_hash\<close> (lines 33-52), named \<open>hash_func\<close> here, as it is called:
  \<^verbatim>\<open>_hash(func, *args, **kwargs)\<close>. Its first parameter is named \<^verbatim>\<open>func\<close>, so a
  keyword of that name makes the call raise TypeError before the body runs. The digest
  and \<^verbatim>\<open>str\<close> are parameters. \<^verbatim>\<open>sorted\<close> is stable and compares the keys as strings,
  which is the lexicographic order on character codes.
\<close>

definition hash_func ::
  "(string \<Rightarrow> string) \<Rightarrow> ('v \<Rightarrow> string) \<Rightarrow> operation \<Rightarrow> 'v list \<Rightarrow> (string \<times> 'v) list
     \<Rightarrow> error + string" where
  "hash_func digest render func args kwargs =
     (if ''func'' \<in> fst ` set kwargs then Inl HashTypeError
      else
        (let func_name = op_name func;
             sorted_kwargs = sort_key fst kwargs;
             args_str = join '','' (map render args);
             kwargs_str = join '','' (map (\<lambda>(key, val). key @ ''='' @ render val) sorted_kwargs);
             combined_str = func_name @ ''('' @ args_str @ '','' @ kwargs_str @ '')''
         in Inr (digest combined_str)))"

section \<open>SQLiteCache\<close>

text \<open>
  The object holds a connection, \<^verbatim>\<open>None\<close> after \<^verbatim>\<open>__init__\<close> (line 62). Its lock has no
  field here: the one \<^verbatim>\<open>with self.lock:\<close> of the class acquires and releases it inside
  one method, and the journal records which statements ran inside it.
\<close>

datatype connection = Connection

record SQLiteCache =
  conn :: "connection option"

definition SQLiteCache_init :: SQLiteCache where
  "SQLiteCache_init = \<lparr>conn = None\<rparr>"

text \<open>\<^verbatim>\<open>with self.conn:\<close> raises when \<^verbatim>\<open>self.conn\<close> is \<^verbatim>\<open>None\<close>.\<close>

definition with_conn ::
  "SQLiteCache \<Rightarrow> (world \<Rightarrow> (error + 'a) \<times> world) \<Rightarrow> world \<Rightarrow> (error + 'a) \<times> world" where
  "with_conn self body w =
     (case conn self of None \<Rightarrow> (Inl ContextManagerError, w) | Some c \<Rightarrow> body w)"

text \<open>The call of \<^verbatim>\<open>cursor.execute\<close>, as far as the journal goes.\<close>

definition execute :: "statement \<Rightarrow> bool \<Rightarrow> world \<Rightarrow> world" where
  "execute stmt locked w = w\<lparr>journal := journal w @ [(stmt, locked)]\<rparr>"

text \<open>
  How sqlite3 and SQLite treat the branch, the one value that reaches a statement
  unchecked. \<^verbatim>\<open>cursor.execute\<close> compiles the statement (a missing table fails here),
  then binds the parameters, where a Python integer outside the signed 64-bit range
  raises OverflowError. The column \<^verbatim>\<open>branch_idx INTEGER\<close> has integer affinity: a text
  that reads as a number is stored, and compared, as that number. Numbers are equal by
  value, texts when they are the same, infinity to itself, and \<^verbatim>\<open>NULL\<close> to nothing.
  The model keeps a number in the form it was bound in.
\<close>

definition int64 :: "int \<Rightarrow> bool" where
  "int64 i = (- (2 ^ 63) \<le> i \<and> i < 2 ^ 63)"

definition bind :: "pyval \<Rightarrow> error + pyval" where
  "bind v = (case v of
               PyInt i \<Rightarrow> if int64 i then Inr v else Inl OverflowError
             | other \<Rightarrow> Inr v)"

definition numeric_affinity :: "library \<Rightarrow> pyval \<Rightarrow> pyval" where
  "numeric_affinity lib v =
     (case v of
        PyStr s \<Rightarrow> (case sqlite_numeric lib s of None \<Rightarrow> v | Some n \<Rightarrow> n)
      | other \<Rightarrow> v)"

fun sql_number :: "pyval \<Rightarrow> real option" where
  "sql_number (PyInt i) = Some (of_int i)"
| "sql_number (PyFloat x) = Some x"
| "sql_number v = None"

definition sql_equal :: "pyval \<Rightarrow> pyval \<Rightarrow> bool" where
  "sql_equal a b =
     (case (sql_number a, sql_number b) of
        (Some x, Some y) \<Rightarrow> x = y
      | (None, None) \<Rightarrow> a \<noteq> PyNone \<and> a = b
      | other \<Rightarrow> False)"

text \<open>
  \<^verbatim>\<open>create_table_if_not_exists\<close> (lines 80-114): the only method that takes the lock.
  The exception of a failed creation is logged and raised again.
\<close>

definition create_table_if_not_exists :: "SQLiteCache \<Rightarrow> world \<Rightarrow> (error + unit) \<times> world" where
  "create_table_if_not_exists self w =
     with_conn self (\<lambda>w.
       let w1 = execute CREATE_TABLE True w in
       (case cache_table w1 of
          Some rows \<Rightarrow> (Inr (), w1)
        | None \<Rightarrow>
            if writable w1 then (Inr (), w1\<lparr>cache_table := Some []\<rparr>)
            else (Inl (OperationalError ''attempt to write a readonly database''), w1))) w"

text \<open>
  \<^verbatim>\<open>__enter__\<close> (lines 65-74): connects, then creates the table. It changes the object,
  so the object is returned too.
\<close>

definition enter :: "SQLiteCache \<Rightarrow> world \<Rightarrow> (error + unit) \<times> SQLiteCache \<times> world" where
  "enter self w =
     (let self' = self\<lparr>conn := Some Connection\<rparr>
      in case create_table_if_not_exists self' w of (r, w') \<Rightarrow> (r, self', w'))"

text \<open>\<^verbatim>\<open>insert_operation_started\<close> (lines 117-136).\<close>

definition insert_operation_started ::
  "library \<Rightarrow> SQLiteCache \<Rightarrow> string \<Rightarrow> pyval \<Rightarrow> real \<Rightarrow> world \<Rightarrow> (error + nat) \<times> world" where
  "insert_operation_started lib self op_hash branch ts w =
     (let rid = next_uuid w;
          w0 = w\<lparr>next_uuid := Suc (next_uuid w)\<rparr>
      in with_conn self (\<lambda>w.
           let w1 = execute INSERT False w in
           (case cache_table w1 of
              None \<Rightarrow> (Inl (OperationalError ''no such table: cache''), w1)
            | Some rows \<Rightarrow>
                (case bind branch of
                   Inl e \<Rightarrow> (Inl e, w1)
                 | Inr b \<Rightarrow>
                     if \<not> writable w1
                     then (Inl (OperationalError ''attempt to write a readonly database''), w1)
                     else if rid \<in> row_idx ` set rows then (Inl IntegrityError, w1)
                     else (Inr rid, w1\<lparr>cache_table := Some (rows @
                            [\<lparr>row_idx = rid, branch_idx = numeric_affinity lib b,
                              operation_hash = op_hash,
                              insert_timestamp = current_timestamp w1, timestamp = ts,
                              status = PENDING, payload = None, result = None\<rparr>])\<rparr>)))) w0)"

text \<open>
  The time-range part of every \<^verbatim>\<open>WHERE\<close> clause: \<^verbatim>\<open>timestamp >= ?\<close>, and
  \<^verbatim>\<open>AND timestamp <= ?\<close> only when the end is not \<^verbatim>\<open>float("inf")\<close>.
\<close>

definition in_timerange :: "real \<Rightarrow> endtime \<Rightarrow> real \<Rightarrow> bool" where
  "in_timerange start_time end_time t =
     (start_time \<le> t \<and> (case end_time of Future \<Rightarrow> True | Until e \<Rightarrow> t \<le> e))"

text \<open>
  \<^verbatim>\<open>pickle.dump(result)\<close> (line 150) and \<^verbatim>\<open>pickle.load(row[3])\<close> (line 249), as the source
  calls them: \<^verbatim>\<open>dump\<close> needs a second argument, the file, and \<^verbatim>\<open>load\<close> needs a file
  object, so both calls raise TypeError whatever the value.
\<close>

definition pickle_dump :: "pyval \<Rightarrow> error + pyval" where
  "pickle_dump obj = Inl PickleDumpTypeError"

definition pickle_load :: "pyval option \<Rightarrow> error + pyval" where
  "pickle_load blob = Inl PickleLoadTypeError"

text \<open>
  \<^verbatim>\<open>update_operation_status\<close> (lines 138-175). Without a row id, a finite end adds a
  placeholder to the query and no value for it (lines 158-159), which sqlite3 refuses
  when it counts the parameters, before it binds them; with a row id the branch is not
  among the parameters.
\<close>

definition update_operation_status ::
  "library \<Rightarrow> SQLiteCache \<Rightarrow> string \<Rightarrow> pyval \<Rightarrow> pyval \<Rightarrow> real \<Rightarrow> endtime \<Rightarrow> nat option
     \<Rightarrow> status \<Rightarrow> world \<Rightarrow> (error + unit) \<times> world" where
  "update_operation_status lib self op_hash branch res start_time end_time rid st w =
     (case pickle_dump res of
        Inl e \<Rightarrow> (Inl e, w)
      | Inr blob \<Rightarrow>
          with_conn self (\<lambda>w.
            let w1 = execute UPDATE False w in
            (case cache_table w1 of
               None \<Rightarrow> (Inl (OperationalError ''no such table: cache''), w1)
             | Some rows \<Rightarrow>
                 if rid = None \<and> end_time \<noteq> Future then (Inl ProgrammingError, w1)
                 else
                   (case (if rid = None then bind branch else Inr branch) of
                      Inl e \<Rightarrow> (Inl e, w1)
                    | Inr b \<Rightarrow>
                        if \<not> writable w1
                        then (Inl (OperationalError ''attempt to write a readonly database''),
                              w1)
                        else (Inr (), w1\<lparr>cache_table := Some (map (\<lambda>r.
                                if (case rid of
                                      None \<Rightarrow>
                                        operation_hash r = op_hash \<and>
                                        sql_equal (branch_idx r) (numeric_affinity lib b) \<and>
                                        status r = PENDING \<and> start_time \<le> timestamp r
                                    | Some i \<Rightarrow> row_idx r = i)
                                then r\<lparr>status := st, result := Some blob\<rparr> else r) rows)\<rparr>)))) w)"

text \<open>\<^verbatim>\<open>check_if_record_exists_with_status\<close> (lines 178-207).\<close>

definition check_if_record_exists_with_status ::
  "library \<Rightarrow> SQLiteCache \<Rightarrow> string \<Rightarrow> pyval \<Rightarrow> real \<Rightarrow> endtime \<Rightarrow> status \<Rightarrow> world
     \<Rightarrow> (error + bool) \<times> world" where
  "check_if_record_exists_with_status lib self op_hash branch start_time end_time st w =
     with_conn self (\<lambda>w.
       let w1 = execute SELECT_COUNT False w in
       (case cache_table w1 of
          None \<Rightarrow> (Inl (OperationalError ''no such table: cache''), w1)
        | Some rows \<Rightarrow>
            (case bind branch of
               Inl e \<Rightarrow> (Inl e, w1)
             | Inr b \<Rightarrow>
                 (Inr (0 < length (filter (\<lambda>r.
                         operation_hash r = op_hash \<and>
                         sql_equal (branch_idx r) (numeric_affinity lib b) \<and> status r = st \<and>
                         in_timerange start_time end_time (timestamp r)) rows)), w1)))) w"

text \<open>
  SQLite's \<^verbatim>\<open>LIKE\<close>: in the pattern \<^verbatim>\<open>%\<close> stands for any run of characters and \<^verbatim>\<open>_\<close>
  for any one character; letters A-Z match without regard to case.
\<close>

definition ascii_lower :: "char \<Rightarrow> char" where
  "ascii_lower c =
     (if CHR ''A'' \<le> c \<and> c \<le> CHR ''Z'' then char_of (of_char c + (32::nat)) else c)"

fun like :: "string \<Rightarrow> string \<Rightarrow> bool" where
  "like [] [] = True"
| "like [] (c # cs) = False"
| "like (p # ps) [] = (p = CHR ''%'' \<and> like ps [])"
| "like (p # ps) (c # cs) =
     (if p = CHR ''%'' then like ps (c # cs) \<or> like (p # ps) cs
      else (p = CHR ''_'' \<or> ascii_lower p = ascii_lower c) \<and> like ps cs)"

text \<open>
  \<^verbatim>\<open>ORDER BY status DESC, insert_timestamp ASC LIMIT 1\<close> and \<^verbatim>\<open>fetchone\<close>. SQL leaves the
  order of rows with equal keys open; the sort here is stable, so such rows keep their
  table order.
\<close>

definition order_key :: "row \<Rightarrow> nat \<times> nat" where
  "order_key r = (2 - status_code (status r), insert_timestamp r)"

definition fetchone :: "'a list \<Rightarrow> 'a option" where
  "fetchone rs = (case rs of [] \<Rightarrow> None | r # rest \<Rightarrow> Some r)"

text \<open>
  The query of \<^verbatim>\<open>retrieve_earliest_record\<close> (lines 225-244) and the row it fetches, for
  a branch already bound.
\<close>

definition select_earliest ::
  "library \<Rightarrow> string \<Rightarrow> pyval \<Rightarrow> real \<Rightarrow> endtime \<Rightarrow> status option \<Rightarrow> row list \<Rightarrow> row option" where
  "select_earliest lib function_hash cache_branch range_start range_end retrieve_status rows =
     fetchone (sort_key order_key (filter (\<lambda>r.
       like function_hash (operation_hash r) \<and>
       sql_equal (branch_idx r) (numeric_affinity lib cache_branch) \<and>
       in_timerange range_start range_end (timestamp r) \<and>
       (case retrieve_status of None \<Rightarrow> True | Some s \<Rightarrow> status r = s)) rows))"

text \<open>
  \<^verbatim>\<open>retrieve_earliest_record\<close> (lines 209-252): \<^verbatim>\<open>(False, None)\<close> without a row,
  \<^verbatim>\<open>(True, pickle.load(row[3]))\<close> when the result is wanted, \<^verbatim>\<open>(True, None)\<close> otherwise.
\<close>

definition retrieve_earliest_record ::
  "library \<Rightarrow> SQLiteCache \<Rightarrow> string \<Rightarrow> pyval \<Rightarrow> real \<Rightarrow> endtime \<Rightarrow> status option \<Rightarrow> bool
     \<Rightarrow> world \<Rightarrow> (error + bool \<times> pyval) \<times> world" where
  "retrieve_earliest_record lib self function_hash cache_branch range_start range_end
       retrieve_status return_record_result w =
     with_conn self (\<lambda>w.
       let w1 = execute SELECT_ROW False w in
       (case cache_table w1 of
          None \<Rightarrow> (Inl (OperationalError ''no such table: cache''), w1)
        | Some rows \<Rightarrow>
            (case bind cache_branch of
               Inl e \<Rightarrow> (Inl e, w1)
             | Inr b \<Rightarrow>
                 (case select_earliest lib function_hash b range_start range_end
                         retrieve_status rows of
                    None \<Rightarrow> (Inr (False, PyNone), w1)
                  | Some r \<Rightarrow>
                      if return_record_result
                      then (case pickle_load (result r) of
                              Inl e \<Rightarrow> (Inl e, w1)
                            | Inr v \<Rightarrow> (Inr (True, v), w1))
                      else (Inr (True, PyNone), w1))))) w"

section \<open>sqlite_cache_wrapper\<close>

definition MAX_POLL_TIME :: real where
  "MAX_POLL_TIME = 10"

definition POLL_INTERVAL :: real where
  "POLL_INTERVAL = 0.003"

text \<open>
  \<^verbatim>\<open>time.sleep\<close> advances the timer by the interval; every other statement takes no
  time in this model.
\<close>

definition sleep :: "real \<Rightarrow> world \<Rightarrow> world" where
  "sleep d w = w\<lparr>default_timer := default_timer w + d\<rparr>"

definition reserved_keys :: "string list" where
  "reserved_keys =
     [''worker_id'', ''cache_branch'', ''experiment_start_timestamp'',
      ''experiment_end_timestamp'']"

text \<open>\<^verbatim>\<open>kwargs.get(key, default)\<close>\<close>

definition kwargs_get :: "(string \<times> 'v) list \<Rightarrow> string \<Rightarrow> 'v \<Rightarrow> 'v" where
  "kwargs_get kwargs key dflt = (case map_of kwargs key of None \<Rightarrow> dflt | Some v \<Rightarrow> v)"

text \<open>
  \<^verbatim>\<open>datetime.fromtimestamp\<close> raises on a value that is not a number, on infinity, on an
  integer that does not fit the platform's \<^verbatim>\<open>time_t\<close> (at most 64 bits), and on a time
  the platform cannot convert in its time zone.
\<close>

definition fromtimestamp :: "library \<Rightarrow> pyval \<Rightarrow> error + real" where
  "fromtimestamp lib v =
     (case v of
        PyInt i \<Rightarrow>
          if int64 i \<and> fromtimestamp_ok lib (of_int i) then Inr (of_int i)
          else Inl FromTimestampError
      | PyFloat x \<Rightarrow>
          if fromtimestamp_ok lib x then Inr x else Inl FromTimestampError
      | other \<Rightarrow> Inl FromTimestampError)"

text \<open>
  Line 302 builds a string for the log messages. The string itself is not modelled;
  building it converts the start, and the end unless it is \<^verbatim>\<open>float("inf")\<close>, and either
  conversion can raise. The result here is the range once both conversions passed.
\<close>

definition timerange_in_iso :: "library \<Rightarrow> pyval \<Rightarrow> pyval \<Rightarrow> error + real \<times> endtime" where
  "timerange_in_iso lib start_time end_time =
     (case fromtimestamp lib start_time of
        Inl e \<Rightarrow> Inl e
      | Inr s \<Rightarrow>
          if end_time \<noteq> PyInfinity
          then (case fromtimestamp lib end_time of Inl e \<Rightarrow> Inl e | Inr t \<Rightarrow> Inr (s, Until t))
          else Inr (s, Future))"

text \<open>\<^verbatim>\<open>end_time < request_time\<close> (lines 362, 376)\<close>

definition end_before :: "endtime \<Rightarrow> real \<Rightarrow> bool" where
  "end_before end_time request_time =
     (case end_time of Future \<Rightarrow> False | Until e \<Rightarrow> e < request_time)"

text \<open>\<^verbatim>\<open>"\n".join(traceback.format_exception(*sys.exc_info()))\<close>, with the frames left out.\<close>

definition format_exception :: "string \<Rightarrow> string" where
  "format_exception msg = ''Traceback (most recent call last): Exception: '' @ msg"

text \<open>The polling loop (lines 341-356).\<close>

function polling ::
  "library \<Rightarrow> SQLiteCache \<Rightarrow> string \<Rightarrow> pyval \<Rightarrow> real \<Rightarrow> endtime \<Rightarrow> real \<Rightarrow> world
     \<Rightarrow> (error + pyval) \<times> world" where
  "polling lib self function_hash cache_branch start_time end_time polling_start_time w =
     (if default_timer w - polling_start_time < MAX_POLL_TIME then
        (case check_if_record_exists_with_status lib self function_hash cache_branch
                start_time end_time COMPLETED w of
           (Inl e, w1) \<Rightarrow> (Inl e, w1)
         | (Inr True, w1) \<Rightarrow>
             (case retrieve_earliest_record lib self function_hash cache_branch
                     start_time end_time (Some COMPLETED) True w1 of
                (Inl e, w2) \<Rightarrow> (Inl e, w2)
              | (Inr (found, res), w2) \<Rightarrow> (Inr res, w2))
         | (Inr False, w1) \<Rightarrow>
             polling lib self function_hash cache_branch start_time end_time polling_start_time
               (sleep POLL_INTERVAL w1))
      else (Inl PollTimeout, w))"
  by pat_completeness auto
termination
proof (relation "measure (\<lambda>(lib, self, h, b, s, e, t0, w).
                   nat \<lceil>(t0 + MAX_POLL_TIME - default_timer w) / POLL_INTERVAL\<rceil>)")
  show "wf (measure (\<lambda>(lib :: library, self :: SQLiteCache, h :: string, b :: pyval, s :: real,
                        e :: endtime, t0, w).
              nat \<lceil>(t0 + MAX_POLL_TIME - default_timer w) / POLL_INTERVAL\<rceil>))"
    by simp
next
  fix lib self h b s e t0 w x w1 found
  assume running: "default_timer w - t0 < MAX_POLL_TIME"
    and chk: "(x, w1) = check_if_record_exists_with_status lib self h b s e COMPLETED w"
  have t: "default_timer w1 = default_timer w"
    using chk
    by (auto simp: check_if_record_exists_with_status_def with_conn_def execute_def Let_def
             split: option.splits sum.splits)
  define q where "q = (t0 + MAX_POLL_TIME - default_timer w) / POLL_INTERVAL"
  from running have "0 < q"
    by (simp add: q_def POLL_INTERVAL_def)
  then have "1 \<le> \<lceil>q\<rceil>" by simp
  moreover have "(t0 + MAX_POLL_TIME - (default_timer w + POLL_INTERVAL)) / POLL_INTERVAL = q - 1"
    by (simp add: q_def POLL_INTERVAL_def field_simps)
  ultimately show "((lib, self, h, b, s, e, t0, sleep POLL_INTERVAL w1),
                    (lib, self, h, b, s, e, t0, w))
      \<in> measure (\<lambda>(lib, self, h, b, s, e, t0, w).
                   nat \<lceil>(t0 + MAX_POLL_TIME - default_timer w) / POLL_INTERVAL\<rceil>)"
    by (simp add: sleep_def t q_def [symmetric])
qed

declare polling.simps [simp del]

text \<open>
  The compute path (lines 381-426): insert the pending row, call the function with the
  filtered keyword arguments, store the outcome under the row's id, read the result back.
\<close>

definition compute ::
  "library \<Rightarrow> SQLiteCache \<Rightarrow> operation \<Rightarrow> pyval list \<Rightarrow> (string \<times> pyval) list \<Rightarrow> string
     \<Rightarrow> pyval \<Rightarrow> real \<Rightarrow> endtime \<Rightarrow> real \<Rightarrow> world \<Rightarrow> (error + pyval) \<times> world" where
  "compute lib self func args kwargs function_hash cache_branch start_time end_time
       request_time w =
     (case insert_operation_started lib self function_hash cache_branch request_time w of
        (Inl e, w1) \<Rightarrow> (Inl e, w1)
      | (Inr rid, w1) \<Rightarrow>
          (let w2 = w1\<lparr>invocations := invocations w1 @ [(args, kwargs)]\<rparr> in
           (case run func args kwargs of
              Inl msg \<Rightarrow>
                (case update_operation_status lib self function_hash cache_branch
                        (PyStr (format_exception msg)) start_time end_time (Some rid) FAILED w2 of
                   (Inl e, w3) \<Rightarrow> (Inl e, w3)
                 | (Inr u, w3) \<Rightarrow> (Inl (OperationFailed msg), w3))
            | Inr res \<Rightarrow>
                (case update_operation_status lib self function_hash cache_branch
                        res start_time end_time (Some rid) COMPLETED w2 of
                   (Inl e, w3) \<Rightarrow> (Inl e, w3)
                 | (Inr u, w3) \<Rightarrow>
                     (case retrieve_earliest_record lib self function_hash cache_branch
                             start_time end_time (Some COMPLETED) True w3 of
                        (Inl e, w4) \<Rightarrow> (Inl e, w4)
                      | (Inr (found, res'), w4) \<Rightarrow> (Inr res', w4))))))"

text \<open>
  The body of \<^verbatim>\<open>wrapper\<close> from line 296 on, for a given cache client. \<open>request_time\<close> is
  the reading of \<^verbatim>\<open>datetime.now().timestamp()\<close>. The branch is used as it comes:
  \<^verbatim>\<open>cast(int, ...)\<close> checks nothing.
\<close>

definition wrapper_body ::
  "library \<Rightarrow> SQLiteCache \<Rightarrow> operation \<Rightarrow> pyval list \<Rightarrow> (string \<times> pyval) list \<Rightarrow> real \<Rightarrow> world
     \<Rightarrow> (error + pyval) \<times> world" where
  "wrapper_body lib cache_client func args kwargs request_time w =
     (let cache_branch = kwargs_get kwargs ''cache_branch'' (PyInt 0) in
      (case timerange_in_iso lib (kwargs_get kwargs ''experiment_start_timestamp'' (PyInt 0))
              (kwargs_get kwargs ''experiment_end_timestamp'' PyInfinity) of
         Inl e \<Rightarrow> (Inl e, w)
       | Inr (start_time, end_time) \<Rightarrow>
           (let kwargs' = filter_keys kwargs reserved_keys in
            (case hash_func (sha256_hexdigest lib) (py_str lib) func args kwargs' of
               Inl e \<Rightarrow> (Inl e, w)
             | Inr function_hash \<Rightarrow>
                 (case check_if_record_exists_with_status lib cache_client function_hash
                         cache_branch start_time end_time COMPLETED w of
                    (Inl e, w1) \<Rightarrow> (Inl e, w1)
                  | (Inr True, w1) \<Rightarrow>
                      (case retrieve_earliest_record lib cache_client function_hash cache_branch
                              start_time end_time (Some COMPLETED) True w1 of
                         (Inl e, w2) \<Rightarrow> (Inl e, w2)
                       | (Inr (found, res), w2) \<Rightarrow> (Inr res, w2))
                  | (Inr False, w1) \<Rightarrow>
                      (case check_if_record_exists_with_status lib cache_client function_hash
                              cache_branch start_time end_time PENDING w1 of
                         (Inl e, w2) \<Rightarrow> (Inl e, w2)
                       | (Inr True, w2) \<Rightarrow>
                           polling lib cache_client function_hash cache_branch start_time
                             end_time (default_timer w2) w2
                       | (Inr False, w2) \<Rightarrow>
                           (case check_if_record_exists_with_status lib cache_client
                                   function_hash cache_branch start_time end_time FAILED w2 of
                              (Inl e, w3) \<Rightarrow> (Inl e, w3)
                            | (Inr failed, w3) \<Rightarrow>
                                if failed \<and> end_before end_time request_time then
                                  (case retrieve_earliest_record lib cache_client function_hash
                                          cache_branch start_time end_time (Some FAILED) True
                                          w3 of
                                     (Inl e, w4) \<Rightarrow> (Inl e, w4)
                                   | (Inr (found, res), w4) \<Rightarrow> (Inl (StoredFailure res), w4))
                                else if end_before end_time request_time
                                then (Inl CacheMissing, w3)
                                else compute lib cache_client func args kwargs' function_hash
                                       cache_branch start_time end_time request_time w3)))))))"

text \<open>
  \<^verbatim>\<open>wrapper\<close> (lines 285-426): line 294 builds a new \<^verbatim>\<open>SQLiteCache()\<close> for the call and
  uses it as it is; \<^verbatim>\<open>__enter__\<close> is not called.
\<close>

definition wrapper ::
  "library \<Rightarrow> operation \<Rightarrow> pyval list \<Rightarrow> (string \<times> pyval) list \<Rightarrow> real \<Rightarrow> world
     \<Rightarrow> (error + pyval) \<times> world" where
  "wrapper lib func args kwargs request_time w =
     wrapper_body lib SQLiteCache_init func args kwargs request_time w"

section \<open>Example states\<close>

text \<open>
  A library for the examples: the digest is the identity, so that a fingerprint shows
  the string it was computed from; values are rendered by \<open>example_str\<close>; the times
  from 1970 to 2100 convert, as on a Linux platform in any time zone; no text is read as
  a number, the examples binding integers only.
\<close>

definition example_str :: "pyval \<Rightarrow> string" where
  "example_str v = (case v of PyStr s \<Rightarrow> s | PyNone \<Rightarrow> ''None'' | other \<Rightarrow> ''#'')"

definition example_library :: library where
  "example_library =
     \<lparr>sha256_hexdigest = (\<lambda>s. s), py_str = example_str,
      fromtimestamp_ok = (\<lambda>t. 0 \<le> t \<and> t \<le> 4102444800),
      sqlite_numeric = (\<lambda>s. None)\<rparr>"

text \<open>
  A database whose table exists and is empty, one without the table, an operation that
  returns 42 and one that raises.
\<close>

definition example_world :: world where
  "example_world = \<lparr>cache_table = Some [], writable = True, next_uuid = 0,
     current_timestamp = 100, default_timer = 0, invocations = [], journal = []\<rparr>"

definition fresh_world :: world where
  "fresh_world = \<lparr>cache_table = None, writable = True, next_uuid = 0,
     current_timestamp = 100, default_timer = 0, invocations = [], journal = []\<rparr>"

definition answer_op :: operation where
  "answer_op = \<lparr>op_name = ''f'', run = (\<lambda>args kwargs. Inr (PyInt 42))\<rparr>"

definition boom_op :: operation where
  "boom_op = \<lparr>op_name = ''g'', run = (\<lambda>args kwargs. Inl ''boom'')\<rparr>"

text \<open>
  A client after \<^verbatim>\<open>__enter__\<close>, and a table with rows of several statuses, branches,
  fingerprints and times.
\<close>

definition entered_client :: SQLiteCache where
  "entered_client = \<lparr>conn = Some Connection\<rparr>"

definition example_rows :: "row list" where
  "example_rows =
    [\<lparr>row_idx = 0, branch_idx = PyInt 0, operation_hash = ''ab12'', insert_timestamp = 10,
       timestamp = 5, status = FAILED, payload = None, result = None\<rparr>,
     \<lparr>row_idx = 1, branch_idx = PyInt 0, operation_hash = ''ab12'', insert_timestamp = 20,
       timestamp = 5, status = COMPLETED, payload = None, result = None\<rparr>,
     \<lparr>row_idx = 2, branch_idx = PyInt 0, operation_hash = ''ab12'', insert_timestamp = 15,
       timestamp = 5, status = COMPLETED, payload = None, result = None\<rparr>,
     \<lparr>row_idx = 3, branch_idx = PyInt 1, operation_hash = ''ab12'', insert_timestamp = 1,
       timestamp = 5, status = COMPLETED, payload = None, result = None\<rparr>,
     \<lparr>row_idx = 4, branch_idx = PyInt 0, operation_hash = ''ab12'', insert_timestamp = 2,
       timestamp = 50, status = COMPLETED, payload = None, result = None\<rparr>,
     \<lparr>row_idx = 5, branch_idx = PyInt 0, operation_hash = ''cd34'', insert_timestamp = 3,
       timestamp = 5, status = COMPLETED, payload = None, result = None\<rparr>,
     \<lparr>row_idx = 6, branch_idx = PyInt 0, operation_hash = ''ab12'', insert_timestamp = 4,
       timestamp = 5, status = PENDING, payload = None, result = None\<rparr>]"

definition stored_world :: world where
  "stored_world = example_world\<lparr>cache_table := Some example_rows\<rparr>"

text \<open>
  Tables holding one pending, one completed and one failed row for the calls of the
  examples.
\<close>

definition pending_row :: row where
  "pending_row = \<lparr>row_idx = 0, branch_idx = PyInt 0, operation_hash = ''f(q,)'',
     insert_timestamp = 100, timestamp = 1000, status = PENDING,
     payload = None, result = None\<rparr>"

definition completed_row :: row where
  "completed_row = \<lparr>row_idx = 0, branch_idx = PyInt 0, operation_hash = ''f(q,)'',
     insert_timestamp = 100, timestamp = 5, status = COMPLETED,
     payload = None, result = Some (PyInt 42)\<rparr>"

definition failed_row :: row where
  "failed_row = \<lparr>row_idx = 0, branch_idx = PyInt 0, operation_hash = ''g(q,)'',
     insert_timestamp = 100, timestamp = 5, status = FAILED,
     payload = None, result = Some (PyStr (format_exception ''boom''))\<rparr>"

definition pending_world :: world where
  "pending_world = example_world\<lparr>cache_table := Some [pending_row], next_uuid := 1\<rparr>"

definition completed_world :: world where
  "completed_world = example_world\<lparr>cache_table := Some [completed_row], next_uuid := 1\<rparr>"

definition failed_world :: world where
  "failed_world = example_world\<lparr>cache_table := Some [failed_row], next_uuid := 1\<rparr>"

section \<open>Sorting keyword arguments\<close>

lemma filter_key_singleton:
  "distinct (map fst xs) \<Longrightarrow> k \<in> set xs \<Longrightarrow> filter (\<lambda>x. fst k = fst x) xs = [k]"
proof (induction xs)
  case Nil
  then show ?case by simp
next
  case (Cons a xs)
  show ?case
  proof (cases "k = a")
    case True
    have "filter (\<lambda>x. fst a = fst x) xs = []"
      using Cons.prems(1) by (auto simp: filter_empty_conv image_iff)
    with True show ?thesis by simp
  next
    case False
    with Cons.prems have k: "k \<in> set xs" by simp
    then have "fst k \<noteq> fst a" using Cons.prems(1) by (auto simp: image_iff)
    with Cons.IH k Cons.prems(1) show ?thesis by simp
  qed
qed

lemma sort_key_fst_unique:
  assumes "distinct (map fst xs)" and "distinct (map fst ys)" and "map_of xs = map_of ys"
  shows "sort_key fst xs = sort_key fst ys"
proof (rule properties_for_sort_key)
  have s: "set xs = set ys"
    using assms by (simp add: map_of_inject_set)
  have dx: "distinct xs" and dy: "distinct ys"
    using assms(1,2) by (auto simp: distinct_map)
  from s dx dy have "mset xs = mset ys"
    by (simp add: set_eq_iff_mset_eq_distinct)
  then show "mset (sort_key fst ys) = mset xs" by simp
  show "sorted (map fst (sort_key fst ys))" by simp
  fix k assume "k \<in> set (sort_key fst ys)"
  then have ky: "k \<in> set ys" by simp
  then have kx: "k \<in> set xs" using s by simp
  have "filter (\<lambda>x. fst k = fst x) (sort_key fst ys) = filter (\<lambda>x. fst k = fst x) ys"
    using sort_key_stable [of fst "fst k" ys] by (simp add: eq_commute)
  also have "\<dots> = [k]" using filter_key_singleton [OF assms(2) ky] .
  also have "\<dots> = filter (\<lambda>x. fst k = fst x) xs"
    using filter_key_singleton [OF assms(1) kx] by simp
  finally show "filter (\<lambda>x. fst k = fst x) (sort_key fst ys) = filter (\<lambda>x. fst k = fst x) xs" .
qed

lemma hash_func_order:
  assumes "distinct (map fst kw1)" and "distinct (map fst kw2)" and "map_of kw1 = map_of kw2"
  shows "hash_func H str f args kw1 = hash_func H str f args kw2"
proof -
  have "set kw1 = set kw2"
    using assms by (simp add: map_of_inject_set)
  then have "fst ` set kw1 = fst ` set kw2" by simp
  with sort_key_fst_unique [OF assms] show ?thesis
    by (simp add: hash_func_def)
qed

lemma distinct_filter_keys:
  "distinct (map fst kw) \<Longrightarrow> distinct (map fst (filter_keys kw ks))"
  by (simp add: filter_keys_def distinct_map_filter)

lemma map_of_filter_keys:
  "map_of (filter_keys kw ks) k = (if k \<in> set ks then None else map_of kw k)"
  by (induction kw) (auto simp: filter_keys_def)

lemma filter_keys_no_reserved:
  "k \<in> set ks \<Longrightarrow> k \<notin> fst ` set (filter_keys kw ks)"
  by (auto simp: filter_keys_def)

section \<open>What each store operation changes\<close>

lemma check_frame:
  "check_if_record_exists_with_status lib self h b s e st w = (r, w')
     \<Longrightarrow> cache_table w' = cache_table w \<and> invocations w' = invocations w
         \<and> writable w' = writable w \<and> next_uuid w' = next_uuid w
         \<and> current_timestamp w' = current_timestamp w"
  by (auto simp: check_if_record_exists_with_status_def with_conn_def execute_def Let_def
           split: option.splits sum.splits)

lemma retrieve_frame:
  "retrieve_earliest_record lib self h b s e st want w = (r, w')
     \<Longrightarrow> cache_table w' = cache_table w \<and> invocations w' = invocations w
         \<and> writable w' = writable w \<and> next_uuid w' = next_uuid w
         \<and> current_timestamp w' = current_timestamp w"
  by (auto simp: retrieve_earliest_record_def with_conn_def execute_def Let_def pickle_load_def
           split: option.splits if_splits sum.splits)

lemma update_raises:
  "update_operation_status lib self h b res s e rid st w = (Inl PickleDumpTypeError, w)"
  by (simp add: update_operation_status_def pickle_dump_def)

lemma polling_frame:
  "polling lib self h b s e t0 w = (r, w')
     \<Longrightarrow> cache_table w' = cache_table w \<and> invocations w' = invocations w
         \<and> writable w' = writable w \<and> next_uuid w' = next_uuid w
         \<and> current_timestamp w' = current_timestamp w"
proof (induction lib self h b s e t0 w rule: polling.induct)
  case (1 lib self h b s e t0 w)
  show ?case
  proof (cases "default_timer w - t0 < MAX_POLL_TIME")
    case False
    with "1.prems" show ?thesis by (simp add: polling.simps [of lib self h b s e t0 w])
  next
    case True
    obtain x w1 where
      chk: "check_if_record_exists_with_status lib self h b s e COMPLETED w = (x, w1)"
      by (cases "check_if_record_exists_with_status lib self h b s e COMPLETED w")
    note f1 = check_frame [OF chk]
    show ?thesis
    proof (cases x)
      case (Inl err)
      with True chk "1.prems" f1 show ?thesis
        by (simp add: polling.simps [of lib self h b s e t0 w])
    next
      case (Inr found)
      show ?thesis
      proof (cases found)
        case True
        obtain y w2 where ret:
          "retrieve_earliest_record lib self h b s e (Some COMPLETED) True w1 = (y, w2)"
          by (cases "retrieve_earliest_record lib self h b s e (Some COMPLETED) True w1")
        note f2 = retrieve_frame [OF ret]
        from \<open>default_timer w - t0 < MAX_POLL_TIME\<close> chk Inr True ret "1.prems"
        have "w' = w2"
          by (auto simp: polling.simps [of lib self h b s e t0 w] split: sum.splits prod.splits)
        with f1 f2 show ?thesis by simp
      next
        case False
        from \<open>default_timer w - t0 < MAX_POLL_TIME\<close> chk Inr False "1.prems"
        have rec: "polling lib self h b s e t0 (sleep POLL_INTERVAL w1) = (r, w')"
          by (simp add: polling.simps [of lib self h b s e t0 w])
        have "cache_table w' = cache_table (sleep POLL_INTERVAL w1)
            \<and> invocations w' = invocations (sleep POLL_INTERVAL w1)
            \<and> writable w' = writable (sleep POLL_INTERVAL w1)
            \<and> next_uuid w' = next_uuid (sleep POLL_INTERVAL w1)
            \<and> current_timestamp w' = current_timestamp (sleep POLL_INTERVAL w1)"
          using "1.IH" [of x w1 found] \<open>default_timer w - t0 < MAX_POLL_TIME\<close> chk Inr False rec
          by simp
        with f1 show ?thesis by (simp add: sleep_def)
      qed
    qed
  qed
qed

lemma insert_effect:
  "insert_operation_started lib self h b t w = (r, w') \<Longrightarrow>
     invocations w' = invocations w \<and>
     ((\<exists>err. r = Inl err) \<and> cache_table w' = cache_table w \<or>
      (\<exists>rows. cache_table w = Some rows \<and> r = Inr (next_uuid w) \<and> conn self \<noteq> None \<and>
         cache_table w' = Some (rows @
           [\<lparr>row_idx = next_uuid w, branch_idx = numeric_affinity lib b, operation_hash = h,
             insert_timestamp = current_timestamp w, timestamp = t,
             status = PENDING, payload = None, result = None\<rparr>])))"
  by (auto simp: insert_operation_started_def with_conn_def execute_def Let_def bind_def
           split: option.splits if_splits sum.splits pyval.splits)

lemma compute_effect:
  assumes "compute lib self f args kw h b s e rt w = (res, w')"
  shows "(\<exists>err. res = Inl err) \<and>
     (cache_table w' = cache_table w \<and> invocations w' = invocations w \<or>
      (\<exists>rows. cache_table w = Some rows \<and> conn self \<noteq> None \<and>
         cache_table w' = Some (rows @
           [\<lparr>row_idx = next_uuid w, branch_idx = numeric_affinity lib b, operation_hash = h,
             insert_timestamp = current_timestamp w, timestamp = rt,
             status = PENDING, payload = None, result = None\<rparr>]) \<and>
         invocations w' = invocations w @ [(args, kw)] \<and> res = Inl PickleDumpTypeError))"
proof -
  obtain r w1 where ins: "insert_operation_started lib self h b rt w = (r, w1)"
    by (cases "insert_operation_started lib self h b rt w")
  note eff = insert_effect [OF ins]
  show ?thesis
  proof (cases r)
    case (Inl err)
    with assms ins eff show ?thesis by (auto simp: compute_def)
  next
    case (Inr rid)
    with assms ins have "res = Inl PickleDumpTypeError
        \<and> w' = w1\<lparr>invocations := invocations w1 @ [(args, kw)]\<rparr>"
      by (auto simp: compute_def update_raises Let_def split: sum.splits)
    with eff Inr show ?thesis by auto
  qed
qed

lemma wrapper_body_effect:
  assumes run: "wrapper_body lib c f args kw rt w = (res, w')"
  shows "cache_table w' = cache_table w \<and> invocations w' = invocations w \<or>
     (\<exists>rows r. cache_table w = Some rows \<and> conn c \<noteq> None \<and>
        cache_table w' = Some (rows @ [r]) \<and> row_idx r = next_uuid w \<and>
        hash_func (sha256_hexdigest lib) (py_str lib) f args (filter_keys kw reserved_keys) =
          Inr (operation_hash r) \<and>
        timestamp r = rt \<and> status r = PENDING \<and> result r = None \<and>
        invocations w' = invocations w @ [(args, filter_keys kw reserved_keys)] \<and>
        res = Inl PickleDumpTypeError)"
proof -
  let ?b = "kwargs_get kw ''cache_branch'' (PyInt 0)"
  let ?tr = "timerange_in_iso lib (kwargs_get kw ''experiment_start_timestamp'' (PyInt 0))
               (kwargs_get kw ''experiment_end_timestamp'' PyInfinity)"
  let ?kw = "filter_keys kw reserved_keys"
  let ?hf = "hash_func (sha256_hexdigest lib) (py_str lib) f args ?kw"
  show ?thesis
  proof (cases ?tr)
    case (Inl e)
    with run show ?thesis by (simp add: wrapper_body_def)
  next
    case (Inr se)
    obtain s e where se: "se = (s, e)" by (cases se)
    show ?thesis
    proof (cases ?hf)
      case (Inl err)
      with Inr se run show ?thesis by (simp add: wrapper_body_def Let_def)
    next
      case hash: (Inr h)
      obtain x1 w1 where
        c1: "check_if_record_exists_with_status lib c h ?b s e COMPLETED w = (x1, w1)"
        by (cases "check_if_record_exists_with_status lib c h ?b s e COMPLETED w")
      note f1 = check_frame [OF c1]
      obtain y1 v1 where
        r1: "retrieve_earliest_record lib c h ?b s e (Some COMPLETED) True w1 = (y1, v1)"
        by (cases "retrieve_earliest_record lib c h ?b s e (Some COMPLETED) True w1")
      note g1 = retrieve_frame [OF r1]
      obtain x2 w2 where
        c2: "check_if_record_exists_with_status lib c h ?b s e PENDING w1 = (x2, w2)"
        by (cases "check_if_record_exists_with_status lib c h ?b s e PENDING w1")
      note f2 = check_frame [OF c2]
      obtain y2 v2 where p2: "polling lib c h ?b s e (default_timer w2) w2 = (y2, v2)"
        by (cases "polling lib c h ?b s e (default_timer w2) w2")
      note g2 = polling_frame [OF p2]
      obtain x3 w3 where
        c3: "check_if_record_exists_with_status lib c h ?b s e FAILED w2 = (x3, w3)"
        by (cases "check_if_record_exists_with_status lib c h ?b s e FAILED w2")
      note f3 = check_frame [OF c3]
      obtain y3 v3 where
        r3: "retrieve_earliest_record lib c h ?b s e (Some FAILED) True w3 = (y3, v3)"
        by (cases "retrieve_earliest_record lib c h ?b s e (Some FAILED) True w3")
      note g3 = retrieve_frame [OF r3]
      obtain y4 v4 where k4: "compute lib c f args ?kw h ?b s e rt w3 = (y4, v4)"
        by (cases "compute lib c f args ?kw h ?b s e rt w3")
      note g4 = compute_effect [OF k4]
      have "w' \<in> {w1, v1, w2, v2, w3, v3} \<or> (res, w') = (y4, v4)"
        using run Inr se hash c1 r1 c2 p2 c3 r3 k4
        by (simp add: wrapper_body_def Let_def
              split: sum.splits bool.splits prod.splits if_splits)
      then show ?thesis
      proof
        assume "w' \<in> {w1, v1, w2, v2, w3, v3}"
        with f1 g1 f2 g2 f3 g3 show ?thesis by auto
      next
        assume "(res, w') = (y4, v4)"
        with g4 f1 f2 f3 hash show ?thesis by auto
      qed
    qed
  qed
qed

section \<open>Ranking\<close>

lemma fetchone_sort_key_Some:
  assumes "fetchone (sort_key k xs) = Some r"
  shows "r \<in> set xs \<and> (\<forall>x \<in> set xs. k r \<le> k x)"
proof -
  from assms obtain rest where eq: "sort_key k xs = r # rest"
    by (auto simp: fetchone_def split: list.splits)
  have "sorted (map k (sort_key k xs))" by simp
  with eq have "\<forall>x \<in> set rest. k r \<le> k x" by simp
  moreover have "set xs = set (r # rest)" using eq [symmetric] by simp
  ultimately show ?thesis by auto
qed

lemma order_key_le:
  "order_key r \<le> order_key r' \<longleftrightarrow>
     status_code (status r') < status_code (status r) \<or>
     status (r') = status r \<and> insert_timestamp r \<le> insert_timestamp r'"
  by (cases "status r"; cases "status r'") (auto simp: order_key_def less_eq_prod_def)

text \<open>
  The row the query of \<^verbatim>\<open>retrieve_earliest_record\<close> fetches satisfies the \<^verbatim>\<open>WHERE\<close>
  clause, and among the rows that do it has the highest status and, within its status,
  the earliest insertion time.
\<close>

lemma select_earliest_best:
  assumes "select_earliest lib h b s e sf rows = Some r"
  shows "r \<in> set rows \<and> in_timerange s e (timestamp r) \<and>
     (\<forall>r' \<in> set rows.
        like h (operation_hash r') \<and> sql_equal (branch_idx r') (numeric_affinity lib b) \<and>
        in_timerange s e (timestamp r') \<and>
        (case sf of None \<Rightarrow> True | Some x \<Rightarrow> status r' = x) \<longrightarrow>
        status_code (status r') \<le> status_code (status r) \<and>
        (status r' = status r \<longrightarrow> insert_timestamp r \<le> insert_timestamp r'))"
proof -
  let ?P = "\<lambda>r. like h (operation_hash r) \<and> sql_equal (branch_idx r) (numeric_affinity lib b) \<and>
       in_timerange s e (timestamp r) \<and>
       (case sf of None \<Rightarrow> True | Some x \<Rightarrow> status r = x)"
  from assms have "fetchone (sort_key order_key (filter ?P rows)) = Some r"
    by (simp add: select_earliest_def)
  from fetchone_sort_key_Some [OF this]
  have mem: "r \<in> set (filter ?P rows)"
    and least: "\<forall>x \<in> set (filter ?P rows). order_key r \<le> order_key x" by blast+
  have "\<forall>r' \<in> set rows. ?P r' \<longrightarrow>
        status_code (status r') \<le> status_code (status r) \<and>
        (status r' = status r \<longrightarrow> insert_timestamp r \<le> insert_timestamp r')"
  proof (intro ballI impI)
    fix r' assume "r' \<in> set rows" and "?P r'"
    then have "r' \<in> set (filter ?P rows)" by simp
    then have "order_key r \<le> order_key r'" using least by blast
    then show "status_code (status r') \<le> status_code (status r) \<and>
        (status r' = status r \<longrightarrow> insert_timestamp r \<le> insert_timestamp r')"
      by (auto simp: order_key_le)
  qed
  with mem show ?thesis by simp
qed

section \<open>The wrapper on its own client and on an entered one\<close>

text \<open>
  The first store call of \<^verbatim>\<open>wrapper\<close> meets a client without a connection. The lemmas
  on an entered client show what the body of \<^verbatim>\<open>wrapper\<close> does once the connection is
  open.
\<close>

lemma check_unopened:
  "check_if_record_exists_with_status lib SQLiteCache_init h b s e st w =
     (Inl ContextManagerError, w)"
  by (simp add: check_if_record_exists_with_status_def with_conn_def SQLiteCache_init_def)

lemma fromtimestamp_error: "fromtimestamp lib v = Inl x \<Longrightarrow> x = FromTimestampError"
  by (auto simp: fromtimestamp_def split: pyval.splits if_splits)

lemma timerange_error: "timerange_in_iso lib a b = Inl x \<Longrightarrow> x = FromTimestampError"
  by (auto simp: timerange_in_iso_def split: sum.splits if_splits dest: fromtimestamp_error)

lemma hash_func_error: "hash_func H str f args kw = Inl x \<Longrightarrow> x = HashTypeError"
  by (auto simp: hash_func_def Let_def split: if_splits)

lemma wrapper_raises:
  "\<exists>err. wrapper lib f args kw rt w = (Inl err, w) \<and>
         err \<in> {ContextManagerError, FromTimestampError, HashTypeError}"
  by (auto simp: wrapper_def wrapper_body_def check_unopened Let_def
           split: sum.splits prod.splits dest: timerange_error hash_func_error)

lemma check_entered:
  assumes "conn self = Some c" and "cache_table w = Some rows" and "bind b = Inr b"
  shows "check_if_record_exists_with_status lib self h b s e st w =
     (Inr (\<exists>r \<in> set rows. operation_hash r = h \<and>
             sql_equal (branch_idx r) (numeric_affinity lib b) \<and> status r = st \<and>
             in_timerange s e (timestamp r)),
      execute SELECT_COUNT False w)"
proof -
  have "0 < length (filter (\<lambda>r. operation_hash r = h \<and>
            sql_equal (branch_idx r) (numeric_affinity lib b) \<and> status r = st \<and>
            in_timerange s e (timestamp r)) rows) \<longleftrightarrow>
        (\<exists>r \<in> set rows. operation_hash r = h \<and>
             sql_equal (branch_idx r) (numeric_affinity lib b) \<and> status r = st \<and>
             in_timerange s e (timestamp r))"
    by (auto simp: filter_empty_conv)
  with assms show ?thesis
    by (simp add: check_if_record_exists_with_status_def with_conn_def execute_def Let_def)
qed

lemma execute_fields [simp]:
  "cache_table (execute stmt l w) = cache_table w"
  "invocations (execute stmt l w) = invocations w"
  "default_timer (execute stmt l w) = default_timer w"
  "writable (execute stmt l w) = writable w"
  "next_uuid (execute stmt l w) = next_uuid w"
  "current_timestamp (execute stmt l w) = current_timestamp w"
  by (simp_all add: execute_def)

lemma sleep_fields [simp]:
  "cache_table (sleep d w) = cache_table w"
  "invocations (sleep d w) = invocations w"
  "writable (sleep d w) = writable w"
  by (simp_all add: sleep_def)

lemma polling_times_out:
  "conn self = Some c \<Longrightarrow> cache_table w = Some rows \<Longrightarrow> bind b = Inr b \<Longrightarrow>
   \<not> (\<exists>r \<in> set rows. operation_hash r = h \<and>
          sql_equal (branch_idx r) (numeric_affinity lib b) \<and>
          status r = COMPLETED \<and> in_timerange s e (timestamp r)) \<Longrightarrow>
   fst (polling lib self h b s e t0 w) = Inl PollTimeout \<and>
   cache_table (snd (polling lib self h b s e t0 w)) = Some rows \<and>
   invocations (snd (polling lib self h b s e t0 w)) = invocations w"
proof (induction lib self h b s e t0 w rule: polling.induct)
  case (1 lib self h b s e t0 w)
  show ?case
  proof (cases "default_timer w - t0 < MAX_POLL_TIME")
    case False
    with "1.prems"(2) show ?thesis by (simp add: polling.simps [of lib self h b s e t0 w])
  next
    case True
    let ?w1 = "execute SELECT_COUNT False w"
    have chk: "check_if_record_exists_with_status lib self h b s e COMPLETED w =
        (Inr False, ?w1)"
      using check_entered [OF "1.prems"(1,2,3), of lib h s e COMPLETED] "1.prems"(4) by simp
    have step: "polling lib self h b s e t0 w =
        polling lib self h b s e t0 (sleep POLL_INTERVAL ?w1)"
      using True chk by (simp add: polling.simps [of lib self h b s e t0 w])
    have tab: "cache_table (sleep POLL_INTERVAL ?w1) = Some rows"
      using "1.prems"(2) by simp
    from "1.IH" [OF True chk [symmetric] refl refl "1.prems"(1) tab "1.prems"(3,4)]
    show ?thesis by (simp add: step)
  qed
qed

lemma entered_pending_times_out:
  assumes cn: "conn c = Some x" and tab: "cache_table w = Some rows"
    and br: "kwargs_get kw ''cache_branch'' (PyInt 0) = b" and bd: "bind b = Inr b"
    and tr: "timerange_in_iso lib (kwargs_get kw ''experiment_start_timestamp'' (PyInt 0))
               (kwargs_get kw ''experiment_end_timestamp'' PyInfinity) = Inr (s, e)"
    and h: "hash_func (sha256_hexdigest lib) (py_str lib) f args (filter_keys kw reserved_keys) =
              Inr h"
    and nc: "\<not> (\<exists>r \<in> set rows. operation_hash r = h \<and>
                 sql_equal (branch_idx r) (numeric_affinity lib b) \<and>
                 status r = COMPLETED \<and> in_timerange s e (timestamp r))"
    and pe: "\<exists>r \<in> set rows. operation_hash r = h \<and>
                 sql_equal (branch_idx r) (numeric_affinity lib b) \<and>
                 status r = PENDING \<and> in_timerange s e (timestamp r)"
  shows "fst (wrapper_body lib c f args kw rt w) = Inl PollTimeout \<and>
         cache_table (snd (wrapper_body lib c f args kw rt w)) = Some rows \<and>
         invocations (snd (wrapper_body lib c f args kw rt w)) = invocations w"
proof -
  let ?w1 = "execute SELECT_COUNT False w"
  let ?w2 = "execute SELECT_COUNT False ?w1"
  have t1: "cache_table ?w1 = Some rows" and t2: "cache_table ?w2 = Some rows"
    using tab by simp_all
  have c1: "check_if_record_exists_with_status lib c h b s e COMPLETED w = (Inr False, ?w1)"
    using check_entered [OF cn tab bd, of lib h s e COMPLETED] nc by simp
  have c2: "check_if_record_exists_with_status lib c h b s e PENDING ?w1 = (Inr True, ?w2)"
    using check_entered [OF cn t1 bd, of lib h s e PENDING] pe by simp
  have "wrapper_body lib c f args kw rt w = polling lib c h b s e (default_timer ?w2) ?w2"
    using br tr h c1 c2 by (simp add: wrapper_body_def Let_def)
  with polling_times_out [OF cn t2 bd nc, of "default_timer ?w2"] show ?thesis by simp
qed

lemma entered_closed_window_miss:
  assumes cn: "conn c = Some x" and tab: "cache_table w = Some rows"
    and br: "kwargs_get kw ''cache_branch'' (PyInt 0) = b" and bd: "bind b = Inr b"
    and tr: "timerange_in_iso lib (kwargs_get kw ''experiment_start_timestamp'' (PyInt 0))
               (kwargs_get kw ''experiment_end_timestamp'' PyInfinity) = Inr (s, e)"
    and h: "hash_func (sha256_hexdigest lib) (py_str lib) f args (filter_keys kw reserved_keys) =
              Inr h"
    and none: "\<not> (\<exists>r \<in> set rows. operation_hash r = h \<and>
                 sql_equal (branch_idx r) (numeric_affinity lib b) \<and>
                 in_timerange s e (timestamp r))"
    and closed: "end_before e rt"
  shows "fst (wrapper_body lib c f args kw rt w) = Inl CacheMissing \<and>
         cache_table (snd (wrapper_body lib c f args kw rt w)) = Some rows \<and>
         invocations (snd (wrapper_body lib c f args kw rt w)) = invocations w"
proof -
  let ?w1 = "execute SELECT_COUNT False w"
  let ?w2 = "execute SELECT_COUNT False ?w1"
  let ?w3 = "execute SELECT_COUNT False ?w2"
  have t1: "cache_table ?w1 = Some rows" and t2: "cache_table ?w2 = Some rows"
    using tab by simp_all
  have c1: "check_if_record_exists_with_status lib c h b s e COMPLETED w = (Inr False, ?w1)"
    using check_entered [OF cn tab bd, of lib h s e COMPLETED] none by auto
  have c2: "check_if_record_exists_with_status lib c h b s e PENDING ?w1 = (Inr False, ?w2)"
    using check_entered [OF cn t1 bd, of lib h s e PENDING] none by auto
  have c3: "check_if_record_exists_with_status lib c h b s e FAILED ?w2 = (Inr False, ?w3)"
    using check_entered [OF cn t2 bd, of lib h s e FAILED] none by auto
  have "wrapper_body lib c f args kw rt w = (Inl CacheMissing, ?w3)"
    using br tr h c1 c2 c3 closed by (simp add: wrapper_body_def Let_def)
  then show ?thesis using tab by simp
qed

section \<open>Claims\<close>

text \<open>
  C1. Two invocations with the same function and arguments and the default range. On
  the wrapper as written, each raises at its first store call and the function is not
  called (the claim: called once, both return its result). On an entered client the first
  invocation calls the function once and raises when it stores the result, leaving its
  row pending; the second finds the pending row and times out; and a completed row in
  the table makes an invocation raise when it unpickles the result.
\<close>

theorem second_invocation_does_not_return:
  "wrapper example_library answer_op [PyStr ''q''] [] 1000 example_world =
     (Inl ContextManagerError, example_world)
   \<and> wrapper example_library answer_op [PyStr ''q''] [] 1001
       (snd (wrapper example_library answer_op [PyStr ''q''] [] 1000 example_world)) =
     (Inl ContextManagerError, example_world)
   \<and> invocations example_world = []
   \<and> wrapper_body example_library entered_client answer_op [PyStr ''q''] [] 1000
       example_world =
     (Inl PickleDumpTypeError,
      pending_world\<lparr>invocations := [([PyStr ''q''], [])],
        journal := [(SELECT_COUNT, False), (SELECT_COUNT, False), (SELECT_COUNT, False),
                    (INSERT, False)]\<rparr>)
   \<and> fst (wrapper_body example_library entered_client answer_op [PyStr ''q''] [] 1001
       (pending_world\<lparr>invocations := [([PyStr ''q''], [])]\<rparr>)) = Inl PollTimeout
   \<and> invocations (snd (wrapper_body example_library entered_client answer_op
       [PyStr ''q''] [] 1001 (pending_world\<lparr>invocations := [([PyStr ''q''], [])]\<rparr>))) =
     [([PyStr ''q''], [])]
   \<and> fst (wrapper_body example_library entered_client answer_op [PyStr ''q''] [] 1001
       completed_world) = Inl PickleLoadTypeError"
proof -
  let ?w1 = "pending_world\<lparr>invocations := [([PyStr ''q''], [])]\<rparr>"
  have a: "wrapper example_library answer_op [PyStr ''q''] [] 1000 example_world =
     (Inl ContextManagerError, example_world)"
    by code_simp
  have b: "wrapper example_library answer_op [PyStr ''q''] [] 1001
       (snd (wrapper example_library answer_op [PyStr ''q''] [] 1000 example_world)) =
     (Inl ContextManagerError, example_world)"
    by code_simp
  have c: "invocations example_world = []" by (simp add: example_world_def)
  have d: "wrapper_body example_library entered_client answer_op [PyStr ''q''] [] 1000
       example_world =
     (Inl PickleDumpTypeError,
      pending_world\<lparr>invocations := [([PyStr ''q''], [])],
        journal := [(SELECT_COUNT, False), (SELECT_COUNT, False), (SELECT_COUNT, False),
                    (INSERT, False)]\<rparr>)"
    by code_simp
  have tab: "cache_table ?w1 = Some [pending_row]" by (simp add: pending_world_def)
  have cn: "conn entered_client = Some Connection" by (simp add: entered_client_def)
  have br: "kwargs_get [] ''cache_branch'' (PyInt 0) = PyInt 0" by (simp add: kwargs_get_def)
  have bd: "bind (PyInt 0) = Inr (PyInt 0)" by (simp add: bind_def int64_def)
  have tr: "timerange_in_iso example_library
               (kwargs_get [] ''experiment_start_timestamp'' (PyInt 0))
               (kwargs_get [] ''experiment_end_timestamp'' PyInfinity) = Inr (0, Future)"
    by (simp add: kwargs_get_def timerange_in_iso_def fromtimestamp_def example_library_def
          int64_def)
  have h: "hash_func (sha256_hexdigest example_library) (py_str example_library) answer_op
             [PyStr ''q''] (filter_keys [] reserved_keys) = Inr ''f(q,)''"
    by code_simp
  have nc: "\<not> (\<exists>r \<in> set [pending_row]. operation_hash r = ''f(q,)'' \<and>
                 sql_equal (branch_idx r) (numeric_affinity example_library (PyInt 0)) \<and>
                 status r = COMPLETED \<and> in_timerange 0 Future (timestamp r))"
    by (simp add: pending_row_def)
  have pe: "\<exists>r \<in> set [pending_row]. operation_hash r = ''f(q,)'' \<and>
                 sql_equal (branch_idx r) (numeric_affinity example_library (PyInt 0)) \<and>
                 status r = PENDING \<and> in_timerange 0 Future (timestamp r)"
    by (simp add: pending_row_def in_timerange_def sql_equal_def numeric_affinity_def)
  note e = entered_pending_times_out [OF cn tab br bd tr h nc pe, of 1001]
  have g: "fst (wrapper_body example_library entered_client answer_op [PyStr ''q''] [] 1001
       completed_world) = Inl PickleLoadTypeError"
    by code_simp
  from a b c d e g show ?thesis by simp
qed

text \<open>
  C2. \<^verbatim>\<open>SQLiteCache()\<close> has no connection, and \<^verbatim>\<open>wrapper\<close> does not enter it: every
  invocation raises and leaves the world as it was, so on a database without the table
  no statement runs and the table is not created (the claim: the store is opened and the
  table ensured before any query). \<^verbatim>\<open>__enter__\<close> itself connects and creates the
  table, and raises the error of a failed creation.
\<close>

theorem store_not_opened_before_use:
  "conn SQLiteCache_init = None
   \<and> (\<exists>err. wrapper lib f args kw rt w = (Inl err, w) \<and>
         err \<in> {ContextManagerError, FromTimestampError, HashTypeError})
   \<and> wrapper example_library answer_op [PyStr ''q''] [] 1000 fresh_world =
       (Inl ContextManagerError, fresh_world)
   \<and> cache_table fresh_world = None
   \<and> journal fresh_world = []
   \<and> enter SQLiteCache_init fresh_world =
       (Inr (), entered_client,
        fresh_world\<lparr>cache_table := Some [], journal := [(CREATE_TABLE, True)]\<rparr>)
   \<and> fst (enter SQLiteCache_init (fresh_world\<lparr>writable := False\<rparr>)) =
       Inl (OperationalError ''attempt to write a readonly database'')"
proof -
  have a: "conn SQLiteCache_init = None" by (simp add: SQLiteCache_init_def)
  have b: "\<exists>err. wrapper lib f args kw rt w = (Inl err, w) \<and>
         err \<in> {ContextManagerError, FromTimestampError, HashTypeError}"
    by (rule wrapper_raises)
  have c: "wrapper example_library answer_op [PyStr ''q''] [] 1000 fresh_world =
       (Inl ContextManagerError, fresh_world)"
    by code_simp
  have d: "cache_table fresh_world = None" "journal fresh_world = []"
    by (simp_all add: fresh_world_def)
  have e: "enter SQLiteCache_init fresh_world =
       (Inr (), entered_client,
        fresh_world\<lparr>cache_table := Some [], journal := [(CREATE_TABLE, True)]\<rparr>)"
    by (simp add: enter_def create_table_if_not_exists_def with_conn_def execute_def
          SQLiteCache_init_def entered_client_def fresh_world_def Let_def)
  have g: "fst (enter SQLiteCache_init (fresh_world\<lparr>writable := False\<rparr>)) =
       Inl (OperationalError ''attempt to write a readonly database'')"
    by (simp add: enter_def create_table_if_not_exists_def with_conn_def execute_def
          SQLiteCache_init_def fresh_world_def Let_def)
  from a b c d e g show ?thesis by blast
qed

text \<open>
  C3. On an entered client the insert, the existence check and the retrieval execute
  their statement outside \<^verbatim>\<open>with self.lock:\<close>; only the table creation runs inside it
  (the claim: every store operation is serialised through the lock).
\<close>

theorem statements_run_outside_the_lock:
  "insert_operation_started example_library entered_client ''ab12'' (PyInt 0) 5 example_world =
     (Inr 0, example_world\<lparr>cache_table := Some
        [\<lparr>row_idx = 0, branch_idx = PyInt 0, operation_hash = ''ab12'',
          insert_timestamp = 100, timestamp = 5, status = PENDING, payload = None,
          result = None\<rparr>],
        next_uuid := 1, journal := [(INSERT, False)]\<rparr>)
   \<and> journal (snd (check_if_record_exists_with_status example_library entered_client ''ab12''
        (PyInt 0) 0 Future COMPLETED stored_world)) = [(SELECT_COUNT, False)]
   \<and> journal (snd (retrieve_earliest_record example_library entered_client ''ab12'' (PyInt 0)
        0 Future None False stored_world)) = [(SELECT_ROW, False)]
   \<and> journal (snd (create_table_if_not_exists entered_client fresh_world)) =
        [(CREATE_TABLE, True)]"
proof -
  have a: "insert_operation_started example_library entered_client ''ab12'' (PyInt 0) 5
      example_world =
     (Inr 0, example_world\<lparr>cache_table := Some
        [\<lparr>row_idx = 0, branch_idx = PyInt 0, operation_hash = ''ab12'',
          insert_timestamp = 100, timestamp = 5, status = PENDING, payload = None,
          result = None\<rparr>],
        next_uuid := 1, journal := [(INSERT, False)]\<rparr>)"
    by (simp add: insert_operation_started_def with_conn_def execute_def entered_client_def
          example_world_def Let_def bind_def int64_def numeric_affinity_def)
  have b: "journal (snd (check_if_record_exists_with_status example_library entered_client
        ''ab12'' (PyInt 0) 0 Future COMPLETED stored_world)) = [(SELECT_COUNT, False)]"
    by (simp add: check_if_record_exists_with_status_def with_conn_def execute_def
          entered_client_def stored_world_def example_world_def Let_def bind_def int64_def)
  have c: "journal (snd (retrieve_earliest_record example_library entered_client ''ab12''
        (PyInt 0) 0 Future None False stored_world)) = [(SELECT_ROW, False)]"
    by (simp add: retrieve_earliest_record_def with_conn_def execute_def
          entered_client_def stored_world_def example_world_def Let_def bind_def int64_def
          split: option.splits)
  have d: "journal (snd (create_table_if_not_exists entered_client fresh_world)) =
        [(CREATE_TABLE, True)]"
    by (simp add: create_table_if_not_exists_def with_conn_def execute_def
          entered_client_def fresh_world_def Let_def)
  from a b c d show ?thesis by blast
qed

text \<open>
  C4. An operation that raises. The wrapper as written raises at its first store call
  and never calls it. On an entered client the operation is called, and storing the
  failure raises the TypeError of \<^verbatim>\<open>pickle.dump\<close> inside the handler: the row stays
  pending and the caller gets that TypeError (the claim: the row becomes failed with the
  serialised failure and the operation's own failure is re-raised).
  \<^verbatim>\<open>update_operation_status\<close> raises on every input.
\<close>

theorem operation_failure_not_recorded:
  "run boom_op [PyStr ''q''] [] = Inl ''boom''
   \<and> wrapper example_library boom_op [PyStr ''q''] [] 1000 example_world =
       (Inl ContextManagerError, example_world)
   \<and> wrapper_body example_library entered_client boom_op [PyStr ''q''] [] 1000
       example_world =
       (Inl PickleDumpTypeError,
        example_world\<lparr>cache_table := Some [pending_row\<lparr>operation_hash := ''g(q,)''\<rparr>],
          next_uuid := 1, invocations := [([PyStr ''q''], [])],
          journal := [(SELECT_COUNT, False), (SELECT_COUNT, False), (SELECT_COUNT, False),
                      (INSERT, False)]\<rparr>)
   \<and> update_operation_status lib c h b res s e rid st w = (Inl PickleDumpTypeError, w)"
proof -
  have a: "run boom_op [PyStr ''q''] [] = Inl ''boom''" by (simp add: boom_op_def)
  have b: "wrapper example_library boom_op [PyStr ''q''] [] 1000 example_world =
       (Inl ContextManagerError, example_world)"
    by code_simp
  have c: "wrapper_body example_library entered_client boom_op [PyStr ''q''] [] 1000
       example_world =
       (Inl PickleDumpTypeError,
        example_world\<lparr>cache_table := Some [pending_row\<lparr>operation_hash := ''g(q,)''\<rparr>],
          next_uuid := 1, invocations := [([PyStr ''q''], [])],
          journal := [(SELECT_COUNT, False), (SELECT_COUNT, False), (SELECT_COUNT, False),
                      (INSERT, False)]\<rparr>)"
    by code_simp
  have d: "update_operation_status lib c h b res s e rid st w = (Inl PickleDumpTypeError, w)"
    by (rule update_raises)
  from a b c d show ?thesis by blast
qed

text \<open>
  C5. Retrieval on an entered client. The existence check filters as the claim says: a
  row of time 5 is found for the range 0 to 10 and not for 6 to 10. The query of the
  retrieval fetches the row of the highest status and, within it, the earliest insertion
  time. The retrieval does not return that row or its result: when the result is wanted
  it raises the TypeError of \<^verbatim>\<open>pickle.load\<close> for every row found, also for a row that
  \<^verbatim>\<open>insert_operation_started\<close> has just written, and otherwise it returns only that a
  row was found (the claim: it returns the best record).
\<close>

theorem retrieval_does_not_return_the_record:
  "fst (check_if_record_exists_with_status example_library entered_client ''ab12'' (PyInt 0)
        0 (Until 10) COMPLETED stored_world) = Inr True
   \<and> fst (check_if_record_exists_with_status example_library entered_client ''ab12'' (PyInt 0)
        6 (Until 10) COMPLETED stored_world) = Inr False
   \<and> select_earliest example_library ''ab12'' (PyInt 0) 0 (Until 10) None example_rows =
        Some (example_rows ! 2)
   \<and> fst (retrieve_earliest_record example_library entered_client ''ab12'' (PyInt 0)
        0 (Until 10) None True stored_world) = Inl PickleLoadTypeError
   \<and> fst (retrieve_earliest_record example_library entered_client ''ab12'' (PyInt 0)
        0 (Until 10) (Some COMPLETED) True stored_world) = Inl PickleLoadTypeError
   \<and> fst (retrieve_earliest_record example_library entered_client ''ab12'' (PyInt 0)
        0 (Until 10) None False stored_world) = Inr (True, PyNone)
   \<and> fst (retrieve_earliest_record example_library entered_client ''ab12'' (PyInt 0)
        6 (Until 10) None True stored_world) = Inr (False, PyNone)
   \<and> fst (retrieve_earliest_record example_library entered_client ''ab12'' (PyInt 0)
        0 (Until 10) None True
        (snd (insert_operation_started example_library entered_client ''ab12'' (PyInt 0) 5
                example_world))) = Inl PickleLoadTypeError"
proof -
  have a: "fst (check_if_record_exists_with_status example_library entered_client ''ab12''
        (PyInt 0) 0 (Until 10) COMPLETED stored_world) = Inr True"
    by code_simp
  have b: "fst (check_if_record_exists_with_status example_library entered_client ''ab12''
        (PyInt 0) 6 (Until 10) COMPLETED stored_world) = Inr False"
    by code_simp
  have c: "select_earliest example_library ''ab12'' (PyInt 0) 0 (Until 10) None example_rows =
        Some (example_rows ! 2)"
    by code_simp
  have d: "fst (retrieve_earliest_record example_library entered_client ''ab12'' (PyInt 0)
        0 (Until 10) None True stored_world) = Inl PickleLoadTypeError"
    by code_simp
  have e: "fst (retrieve_earliest_record example_library entered_client ''ab12'' (PyInt 0)
        0 (Until 10) (Some COMPLETED) True stored_world) = Inl PickleLoadTypeError"
    by code_simp
  have g: "fst (retrieve_earliest_record example_library entered_client ''ab12'' (PyInt 0)
        0 (Until 10) None False stored_world) = Inr (True, PyNone)"
    by code_simp
  have h: "fst (retrieve_earliest_record example_library entered_client ''ab12'' (PyInt 0)
        6 (Until 10) None True stored_world) = Inr (False, PyNone)"
    by code_simp
  have i: "fst (retrieve_earliest_record example_library entered_client ''ab12'' (PyInt 0)
        0 (Until 10) None True
        (snd (insert_operation_started example_library entered_client ''ab12'' (PyInt 0) 5
                example_world))) = Inl PickleLoadTypeError"
    by code_simp
  from a b c d e g h i show ?thesis by blast
qed

text \<open>
  C6. A pending row in the range and no completed one. The wrapper as written raises at
  its first store call, without polling and without the polling timeout (the claim: it
  polls, then returns the result or raises the timeout). On an entered client it polls
  and raises the timeout without calling the function; a polling loop that finds a
  completed row raises when it unpickles the result.
\<close>

theorem pending_record_not_polled:
  "wrapper example_library answer_op [PyStr ''q''] [] 2000 pending_world =
     (Inl ContextManagerError, pending_world)
   \<and> fst (wrapper_body example_library entered_client answer_op [PyStr ''q''] [] 2000
       pending_world) = Inl PollTimeout
   \<and> invocations (snd (wrapper_body example_library entered_client answer_op
       [PyStr ''q''] [] 2000 pending_world)) = []
   \<and> fst (polling example_library entered_client ''f(q,)'' (PyInt 0) 0 Future 0
       completed_world) = Inl PickleLoadTypeError"
proof -
  have a: "wrapper example_library answer_op [PyStr ''q''] [] 2000 pending_world =
     (Inl ContextManagerError, pending_world)"
    by code_simp
  have tab: "cache_table pending_world = Some [pending_row]" by (simp add: pending_world_def)
  have cn: "conn entered_client = Some Connection" by (simp add: entered_client_def)
  have br: "kwargs_get [] ''cache_branch'' (PyInt 0) = PyInt 0" by (simp add: kwargs_get_def)
  have bd: "bind (PyInt 0) = Inr (PyInt 0)" by (simp add: bind_def int64_def)
  have tr: "timerange_in_iso example_library
               (kwargs_get [] ''experiment_start_timestamp'' (PyInt 0))
               (kwargs_get [] ''experiment_end_timestamp'' PyInfinity) = Inr (0, Future)"
    by (simp add: kwargs_get_def timerange_in_iso_def fromtimestamp_def example_library_def
          int64_def)
  have h: "hash_func (sha256_hexdigest example_library) (py_str example_library) answer_op
             [PyStr ''q''] (filter_keys [] reserved_keys) = Inr ''f(q,)''"
    by code_simp
  have nc: "\<not> (\<exists>r \<in> set [pending_row]. operation_hash r = ''f(q,)'' \<and>
                 sql_equal (branch_idx r) (numeric_affinity example_library (PyInt 0)) \<and>
                 status r = COMPLETED \<and> in_timerange 0 Future (timestamp r))"
    by (simp add: pending_row_def)
  have pe: "\<exists>r \<in> set [pending_row]. operation_hash r = ''f(q,)'' \<and>
                 sql_equal (branch_idx r) (numeric_affinity example_library (PyInt 0)) \<and>
                 status r = PENDING \<and> in_timerange 0 Future (timestamp r)"
    by (simp add: pending_row_def in_timerange_def sql_equal_def numeric_affinity_def)
  note e = entered_pending_times_out [OF cn tab br bd tr h nc pe, of 2000]
  have i: "invocations pending_world = []" by (simp add: pending_world_def example_world_def)
  have g: "fst (polling example_library entered_client ''f(q,)'' (PyInt 0) 0 Future 0
       completed_world) = Inl PickleLoadTypeError"
    by code_simp
  from a e i g show ?thesis by simp
qed

text \<open>
  C7. An empty table and a range that ended before the request. The wrapper as written
  raises the error of the missing connection (the claim: the missing-record error); the
  function is not called. On an entered client the invocation raises the
  missing-record error and does not call the function.
\<close>

theorem closed_window_miss_not_reported:
  "wrapper example_library answer_op [PyStr ''q'']
      [(''experiment_end_timestamp'', PyInt 500)] 1000 example_world =
     (Inl ContextManagerError, example_world)
   \<and> cache_table example_world = Some []
   \<and> end_before (Until 500) 1000
   \<and> fst (wrapper_body example_library entered_client answer_op [PyStr ''q'']
        [(''experiment_end_timestamp'', PyInt 500)] 1000 example_world) = Inl CacheMissing
   \<and> invocations (snd (wrapper_body example_library entered_client answer_op [PyStr ''q'']
        [(''experiment_end_timestamp'', PyInt 500)] 1000 example_world)) = []"
proof -
  have a: "wrapper example_library answer_op [PyStr ''q'']
      [(''experiment_end_timestamp'', PyInt 500)] 1000 example_world =
     (Inl ContextManagerError, example_world)"
    by code_simp
  have b: "cache_table example_world = Some []" by (simp add: example_world_def)
  have c: "end_before (Until 500) 1000" by (simp add: end_before_def)
  have d: "fst (wrapper_body example_library entered_client answer_op [PyStr ''q'']
        [(''experiment_end_timestamp'', PyInt 500)] 1000 example_world) = Inl CacheMissing"
    by code_simp
  have e: "invocations (snd (wrapper_body example_library entered_client answer_op
        [PyStr ''q''] [(''experiment_end_timestamp'', PyInt 500)] 1000 example_world)) = []"
    by code_simp
  from a b c d e show ?thesis by blast
qed

text \<open>
  C8. A failed row in the range. With the range ended before the request, the wrapper as
  written raises the error of the missing connection, and on an entered client the
  TypeError of \<^verbatim>\<open>pickle.load\<close> (the claim: the stored failure with its text). With an
  open range, the wrapper as written raises without calling the function (the claim: it
  computes again); on an entered client it calls the function again.
\<close>

theorem stored_failure_not_replayed:
  "wrapper example_library boom_op [PyStr ''q'']
      [(''experiment_end_timestamp'', PyInt 500)] 1000 failed_world =
     (Inl ContextManagerError, failed_world)
   \<and> fst (wrapper_body example_library entered_client boom_op [PyStr ''q'']
        [(''experiment_end_timestamp'', PyInt 500)] 1000 failed_world) = Inl PickleLoadTypeError
   \<and> invocations (snd (wrapper_body example_library entered_client boom_op [PyStr ''q'']
        [(''experiment_end_timestamp'', PyInt 500)] 1000 failed_world)) = []
   \<and> wrapper example_library boom_op [PyStr ''q''] [] 1000 failed_world =
     (Inl ContextManagerError, failed_world)
   \<and> invocations failed_world = []
   \<and> fst (wrapper_body example_library entered_client boom_op [PyStr ''q''] [] 1000
        failed_world) = Inl PickleDumpTypeError
   \<and> invocations (snd (wrapper_body example_library entered_client boom_op [PyStr ''q'']
        [] 1000 failed_world)) = [([PyStr ''q''], [])]"
  by code_simp

text \<open>
  C9. The fingerprint is a function of the keyword arguments as a map: two dictionaries
  with the same entries, in whatever order, hash alike. The wrapper hashes the keyword
  arguments without the reserved keys \<^verbatim>\<open>worker_id\<close>, \<^verbatim>\<open>cache_branch\<close>,
  \<^verbatim>\<open>experiment_start_timestamp\<close> and \<^verbatim>\<open>experiment_end_timestamp\<close>, so two calls that differ
  only there have the same fingerprint; the filtered dictionary holds no reserved key; and
  for any cache client, every call of the wrapped function that an invocation makes gets
  the filtered dictionary, and every row it inserts carries the fingerprint of the
  filtered dictionary.
\<close>

theorem fingerprint_order_and_reserved_keys:
  assumes d1: "distinct (map fst kw1)" and d2: "distinct (map fst kw2)"
  shows "(map_of kw1 = map_of kw2 \<longrightarrow>
            hash_func H str f args kw1 = hash_func H str f args kw2)
       \<and> ((\<forall>k. k \<notin> set reserved_keys \<longrightarrow> map_of kw1 k = map_of kw2 k) \<longrightarrow>
            hash_func H str f args (filter_keys kw1 reserved_keys) =
            hash_func H str f args (filter_keys kw2 reserved_keys))
       \<and> (\<forall>k \<in> set reserved_keys. k \<notin> fst ` set (filter_keys kw1 reserved_keys))
       \<and> (\<forall>lib c rt w res w'. wrapper_body lib c f args kw1 rt w = (res, w') \<longrightarrow>
            (\<exists>calls. invocations w' = invocations w @ calls \<and>
                      set calls \<subseteq> {(args, filter_keys kw1 reserved_keys)}) \<and>
            (\<forall>rows. cache_table w = Some rows \<longrightarrow>
               (\<exists>new. cache_table w' = Some (rows @ new) \<and>
                  (\<forall>r \<in> set new.
                     hash_func (sha256_hexdigest lib) (py_str lib) f args
                       (filter_keys kw1 reserved_keys) = Inr (operation_hash r)))))"
proof (intro conjI impI allI ballI)
  assume "map_of kw1 = map_of kw2"
  then show "hash_func H str f args kw1 = hash_func H str f args kw2"
    using hash_func_order [OF d1 d2] by simp
next
  assume off: "\<forall>k. k \<notin> set reserved_keys \<longrightarrow> map_of kw1 k = map_of kw2 k"
  have "map_of (filter_keys kw1 reserved_keys) = map_of (filter_keys kw2 reserved_keys)"
    using off by (auto simp: map_of_filter_keys fun_eq_iff)
  then show "hash_func H str f args (filter_keys kw1 reserved_keys) =
        hash_func H str f args (filter_keys kw2 reserved_keys)"
    using hash_func_order [OF distinct_filter_keys [OF d1] distinct_filter_keys [OF d2]]
    by simp
next
  fix k assume "k \<in> set reserved_keys"
  then show "k \<notin> fst ` set (filter_keys kw1 reserved_keys)"
    by (rule filter_keys_no_reserved)
next
  fix lib c rt w res w'
  assume run: "wrapper_body lib c f args kw1 rt w = (res, w')"
  from wrapper_body_effect [OF run]
  show "\<exists>calls. invocations w' = invocations w @ calls \<and>
          set calls \<subseteq> {(args, filter_keys kw1 reserved_keys)}"
  proof
    assume "cache_table w' = cache_table w \<and> invocations w' = invocations w"
    then have "invocations w' = invocations w @ [] \<and>
        set [] \<subseteq> {(args, filter_keys kw1 reserved_keys)}" by simp
    then show ?thesis by blast
  next
    assume "\<exists>rows r. cache_table w = Some rows \<and> conn c \<noteq> None \<and>
        cache_table w' = Some (rows @ [r]) \<and> row_idx r = next_uuid w \<and>
        hash_func (sha256_hexdigest lib) (py_str lib) f args (filter_keys kw1 reserved_keys) =
          Inr (operation_hash r) \<and>
        timestamp r = rt \<and> status r = PENDING \<and> result r = None \<and>
        invocations w' = invocations w @ [(args, filter_keys kw1 reserved_keys)] \<and>
        res = Inl PickleDumpTypeError"
    then have "invocations w' = invocations w @ [(args, filter_keys kw1 reserved_keys)] \<and>
        set [(args, filter_keys kw1 reserved_keys)] \<subseteq> {(args, filter_keys kw1 reserved_keys)}"
      by auto
    then show ?thesis by blast
  qed
next
  fix lib c rt w res w' rows
  assume run: "wrapper_body lib c f args kw1 rt w = (res, w')"
    and tab: "cache_table w = Some rows"
  let ?hf = "hash_func (sha256_hexdigest lib) (py_str lib) f args
               (filter_keys kw1 reserved_keys)"
  from wrapper_body_effect [OF run]
  show "\<exists>new. cache_table w' = Some (rows @ new) \<and>
          (\<forall>r \<in> set new. ?hf = Inr (operation_hash r))"
  proof
    assume "cache_table w' = cache_table w \<and> invocations w' = invocations w"
    with tab have "cache_table w' = Some (rows @ []) \<and>
        (\<forall>r \<in> set []. ?hf = Inr (operation_hash r))" by simp
    then show ?thesis by blast
  next
    assume "\<exists>rows r. cache_table w = Some rows \<and> conn c \<noteq> None \<and>
        cache_table w' = Some (rows @ [r]) \<and> row_idx r = next_uuid w \<and>
        ?hf = Inr (operation_hash r) \<and>
        timestamp r = rt \<and> status r = PENDING \<and> result r = None \<and>
        invocations w' = invocations w @ [(args, filter_keys kw1 reserved_keys)] \<and>
        res = Inl PickleDumpTypeError"
    then obtain r where "cache_table w' = Some (rows @ [r])"
      and "?hf = Inr (operation_hash r)"
      using tab by auto
    then have "cache_table w' = Some (rows @ [r]) \<and>
        (\<forall>r' \<in> set [r]. ?hf = Inr (operation_hash r'))" by simp
    then show ?thesis by blast
  qed
qed

theorem fingerprint_order_and_reserved_keys_witness:
  "distinct (map fst [(''b'', PyInt 2), (''cache_branch'', PyInt 1), (''a'', PyStr ''u'')])
   \<and> distinct (map fst [(''a'', PyStr ''u''), (''worker_id'', PyStr ''w7''), (''b'', PyInt 2)])
   \<and> hash_func (\<lambda>s. s) example_str answer_op [PyStr ''q'']
        (filter_keys [(''b'', PyInt 2), (''cache_branch'', PyInt 1), (''a'', PyStr ''u'')]
           reserved_keys) =
      hash_func (\<lambda>s. s) example_str answer_op [PyStr ''q'']
        (filter_keys [(''a'', PyStr ''u''), (''worker_id'', PyStr ''w7''), (''b'', PyInt 2)]
           reserved_keys)
   \<and> map_of [(''b'', PyInt 2), (''a'', PyStr ''u'')] =
      map_of [(''a'', PyStr ''u''), (''b'', PyInt 2)]
   \<and> hash_func (\<lambda>s. s) example_str answer_op [PyStr ''q'']
        [(''b'', PyInt 2), (''a'', PyStr ''u'')] = Inr ''f(q,a=u,b=#)''
   \<and> hash_func (\<lambda>s. s) example_str answer_op [PyStr ''q'']
        [(''a'', PyStr ''u''), (''b'', PyInt 2)] = Inr ''f(q,a=u,b=#)''
   \<and> invocations (snd (wrapper_body example_library entered_client answer_op
        [PyStr ''q''] [(''b'', PyInt 2), (''cache_branch'', PyInt 1), (''a'', PyStr ''u'')]
        1000 example_world)) = [([PyStr ''q''], [(''b'', PyInt 2), (''a'', PyStr ''u'')])]
   \<and> map operation_hash (the (cache_table (snd (wrapper_body example_library entered_client
        answer_op
        [PyStr ''q''] [(''b'', PyInt 2), (''cache_branch'', PyInt 1), (''a'', PyStr ''u'')]
        1000 example_world)))) = [''f(q,a=u,b=#)'']"
proof -
  let ?A = "[(''b'', PyInt 2), (''cache_branch'', PyInt 1), (''a'', PyStr ''u'')]"
  let ?B = "[(''a'', PyStr ''u''), (''worker_id'', PyStr ''w7''), (''b'', PyInt 2)]"
  let ?C = "[(''b'', PyInt 2), (''a'', PyStr ''u'')]"
  let ?D = "[(''a'', PyStr ''u''), (''b'', PyInt 2)]"
  have dA: "distinct (map fst ?A)" and dB: "distinct (map fst ?B)"
    and dC: "distinct (map fst ?C)" and dD: "distinct (map fst ?D)"
    by simp_all
  have off: "\<forall>k. k \<notin> set reserved_keys \<longrightarrow> map_of ?A k = map_of ?B k"
    by (simp add: reserved_keys_def)
  have same: "map_of ?C = map_of ?D"
    by (auto simp: fun_eq_iff)
  note AB = fingerprint_order_and_reserved_keys
    [OF dA dB, of "\<lambda>s. s" example_str answer_op "[PyStr ''q'']"]
  note CD = fingerprint_order_and_reserved_keys
    [OF dC dD, of "\<lambda>s. s" example_str answer_op "[PyStr ''q'']"]
  have h1: "hash_func (\<lambda>s. s) example_str answer_op [PyStr ''q''] (filter_keys ?A reserved_keys) =
      hash_func (\<lambda>s. s) example_str answer_op [PyStr ''q''] (filter_keys ?B reserved_keys)"
    using AB off by blast
  have hC: "hash_func (\<lambda>s. s) example_str answer_op [PyStr ''q''] ?C = Inr ''f(q,a=u,b=#)''"
    by code_simp
  have hD: "hash_func (\<lambda>s. s) example_str answer_op [PyStr ''q''] ?D = Inr ''f(q,a=u,b=#)''"
    using CD same hC by metis
  have run: "wrapper_body example_library entered_client answer_op
        [PyStr ''q''] ?A 1000 example_world =
      (Inl PickleDumpTypeError,
       \<lparr>cache_table = Some [\<lparr>row_idx = 0, branch_idx = PyInt 1,
            operation_hash = ''f(q,a=u,b=#)'',
            insert_timestamp = 100, timestamp = 1000, status = PENDING,
            payload = None, result = None\<rparr>],
         writable = True, next_uuid = 1, current_timestamp = 100, default_timer = 0,
         invocations = [([PyStr ''q''], ?C)],
         journal = [(SELECT_COUNT, False), (SELECT_COUNT, False), (SELECT_COUNT, False),
                    (INSERT, False)]\<rparr>)"
    by code_simp
  show ?thesis
    using dA dB h1 same hC hD by (simp add: run)
qed


end
